theory Spec2Isabelle
  imports Main "HOL-Library.Word"
begin

section \<open>Data model of main.go\<close>

text \<open>
  A decoded JSON value, as \<open>encoding/json\<close> stores it in an \<open>interface{}\<close>:
  \<open>nil\<close>, \<open>bool\<close>, \<open>float64\<close>, \<open>string\<close>, \<open>[]interface{}\<close> or
  \<open>map[string]interface{}\<close>. The type parameter \<open>'f\<close> stands for \<open>float64\<close>.
\<close>

datatype 'f jval =
    JNull
  | JBool bool
  | JNum 'f
  | JStr string
  | JArr "'f jval list"
  | JObj "(string \<times> 'f jval) list"

text \<open>
  The \<open>Value interface{}\<close> field of \<open>EventMessage\<close>: unset (\<open>nil\<close>), a Go \<open>int\<close>
  (the constants 0 and 1, or what \<open>findNumbersInSentences\<close> returns) or a decoded JSON value.
\<close>

datatype 'f anyval = AnyNil | AnyInt int | AnyJson "'f jval"

fun ifaceOf :: "'f jval \<Rightarrow> 'f anyval" where
  "ifaceOf JNull = AnyNil"
| "ifaceOf v = AnyJson v"

record 'f EventMessage =
  EventName :: string
  Tag :: string
  Value :: "'f anyval"
  Status :: bool
  Msg :: string
  Time :: "64 word"
  Sumber :: string

definition zeroEventMessage :: "'f EventMessage" where
  "zeroEventMessage =
     \<lparr>EventName = [], Tag = [], Value = AnyNil, Status = False, Msg = [], Time = 0, Sumber = []\<rparr>"

text \<open>A row handed to the \<open>INSERT INTO mqtt_data\<close> statement, and the object published on
  the topic \<open>DATAPOINTS\<close>.\<close>

record row =
  row_sender_id :: string
  row_message :: string
  row_timestamp :: "64 word option"

record 'f datapoint =
  dp_event :: string
  dp_tag :: string
  dp_value :: "'f anyval"
  dp_time :: "64 word"
  dp_id_modem :: string

text \<open>
  The state the handlers act on: the global \<open>eventState\<close> (a \<open>sync.Map\<close> in which the
  program only ever stores \<open>true\<close>), the rows sent to the database and the data points
  published, both in the order of the calls. Log output is not part of the state.
\<close>

record 'f world =
  eventState :: "string \<rightharpoonup> bool"
  rows :: "row list"
  datapoints :: "'f datapoint list"

text \<open>
  The library functions the handlers call: \<open>json.Unmarshal\<close> into a
  \<open>map[string]interface{}\<close> (\<open>None\<close> for an error), \<open>strconv.ParseFloat(s, 64)\<close>
  (\<open>None\<close> for an error), the conversion \<open>int64(f)\<close> of a \<open>float64\<close>, and the part
  of \<open>handleGeolocationEvent\<close> from the regular expression to the decoded HTTP response
  (the location data and the request body when the lookup answered 200 with JSON,
  \<open>None\<close> on each of its error returns).
\<close>

record 'f lib =
  json_Unmarshal :: "string \<Rightarrow> (string \<rightharpoonup> 'f jval) option"
  strconv_ParseFloat :: "string \<Rightarrow> 'f option"
  int64 :: "'f \<Rightarrow> 64 word"
  geolocate :: "string \<Rightarrow> ('f jval \<times> string) option"

datatype error = PanicTypeAssertion | PanicIndexOutOfRange

section \<open>The state store and the sink\<close>

definition Store :: "'f world \<Rightarrow> string \<Rightarrow> bool \<Rightarrow> 'f world" where
  "Store w k v = w\<lparr>eventState := (eventState w)(k \<mapsto> v)\<rparr>"

definition Load :: "'f world \<Rightarrow> string \<Rightarrow> bool option" where
  "Load w k = eventState w k"

definition Delete :: "'f world \<Rightarrow> string \<Rightarrow> 'f world" where
  "Delete w k = w\<lparr>eventState := (eventState w)(k := None)\<rparr>"

definition processAndSaveData :: "'f world \<Rightarrow> 'f EventMessage \<Rightarrow> 'f world" where
  "processAndSaveData w data =
     w\<lparr>rows := rows w @
        [\<lparr>row_sender_id = Sumber data, row_message = Msg data, row_timestamp = Some (Time data)\<rparr>]\<rparr>"

definition sendDataPoint :: "'f world \<Rightarrow> 'f EventMessage \<Rightarrow> 'f world" where
  "sendDataPoint w m =
     w\<lparr>datapoints := datapoints w @
        [\<lparr>dp_event = EventName m, dp_tag = Tag m, dp_value = Value m, dp_time = Time m,
          dp_id_modem = Sumber m\<rparr>]\<rparr>"

section \<open>Decoding the timestamp\<close>

text \<open>
  Every handler repeats the same lines after \<open>json.Unmarshal\<close> (in
  \<open>handlePowerBackupModeEvent\<close> lines 273 to 288): the field \<open>timestamp\<close> must be a
  string, \<open>strconv.ParseFloat\<close> must accept it, the float is converted to \<open>int64\<close> and a
  string of length 10 is scaled by 1000. \<open>None\<close> is the early return.
\<close>

definition timestampOf :: "'f lib \<Rightarrow> (string \<rightharpoonup> 'f jval) \<Rightarrow> 64 word option" where
  "timestampOf L msgData =
     (case msgData ''timestamp'' of
        Some (JStr timestampStr) \<Rightarrow>
          (case strconv_ParseFloat L timestampStr of
             None \<Rightarrow> None
           | Some timestampFloat \<Rightarrow>
               (let timestamp = int64 L timestampFloat
                in Some (if length timestampStr = 10 then timestamp * 1000 else timestamp)))
      | _ \<Rightarrow> None)"

section \<open>The correlation handlers\<close>

definition handleClearPowerPlnEvent ::
  "'f lib \<Rightarrow> 'f world \<Rightarrow> string \<Rightarrow> string \<Rightarrow> string \<Rightarrow> 'f world" where
  "handleClearPowerPlnEvent L w senderID message event =
     (case json_Unmarshal L message of
        None \<Rightarrow> w
      | Some msgData \<Rightarrow>
          (case timestampOf L msgData of
             None \<Rightarrow> w
           | Some timestamp \<Rightarrow>
               (let statusClearPowerPlnMessage =
                      \<lparr>EventName = ''POWER_PLN'', Tag = ''power_pln_'' @ senderID,
                       Value = AnyInt 0, Status = True, Msg = message, Time = timestamp,
                       Sumber = senderID\<rparr>
                in if event = ''POWER_RESTORE_MODE'' \<or> event = ''CLEAR_ALARM_METER_DEVICE'' then
                     (let w1 = (if event = ''POWER_RESTORE_MODE''
                                then Store w (senderID @ ''_POWER_RESTORE_MODE'') True
                                else Store w (senderID @ ''_CLEAR_ALARM_METER_DEVICE'') True);
                          alarmEvent = Load w1 (senderID @ ''_CLEAR_ALARM_METER_DEVICE'');
                          powerEvent = Load w1 (senderID @ ''_POWER_RESTORE_MODE'');
                          clearAlarmMeterDevice = (alarmEvent = Some True);
                          powerRestoreMode = (powerEvent = Some True)
                      in if clearAlarmMeterDevice \<or> powerRestoreMode then
                           (let w2 = sendDataPoint
                                       (processAndSaveData w1 statusClearPowerPlnMessage)
                                       statusClearPowerPlnMessage;
                                w3 = (if clearAlarmMeterDevice
                                      then Delete w2 (senderID @ ''_CLEAR_ALARM_METER_DEVICE'')
                                      else w2)
                            in if powerRestoreMode
                               then Delete w3 (senderID @ ''_POWER_RESTORE_MODE'')
                               else w3)
                         else w1)
                   else w)))"

definition handlePowerPln ::
  "'f lib \<Rightarrow> 'f world \<Rightarrow> string \<Rightarrow> string \<Rightarrow> string \<Rightarrow> 'f world" where
  "handlePowerPln L w senderID message event =
     (case json_Unmarshal L message of
        None \<Rightarrow> w
      | Some msgData \<Rightarrow>
          (case timestampOf L msgData of
             None \<Rightarrow> w
           | Some timestamp \<Rightarrow>
               (let statusPowerPlnMessage =
                      \<lparr>EventName = ''POWER_PLN'', Tag = ''power_pln_'' @ senderID,
                       Value = AnyInt 1, Status = True, Msg = message, Time = timestamp,
                       Sumber = senderID\<rparr>
                in if event = ''POWER_BACKUP_MODE'' \<or> event = ''ALARM_METER_DEVICE'' then
                     (let w1 = (if event = ''POWER_BACKUP_MODE''
                                then Store w (senderID @ ''_POWER_BACKUP_MODE'') True
                                else Store w (senderID @ ''_ALARM_METER_DEVICE'') True);
                          alarmEvent = Load w1 (senderID @ ''_ALARM_METER_DEVICE'');
                          powerEvent = Load w1 (senderID @ ''_POWER_BACKUP_MODE'');
                          connectionMissing = (alarmEvent = Some True);
                          powerBackupMode = (powerEvent = Some True)
                      in if connectionMissing \<and> powerBackupMode then
                           sendDataPoint (processAndSaveData w1 statusPowerPlnMessage)
                             statusPowerPlnMessage
                         else w1)
                   else if event = ''POWER_RESTORE_MODE'' \<or> event = ''CLEAR_ALARM_METER_DEVICE''
                   then handleClearPowerPlnEvent L w senderID message event
                   else w)))"

definition checkCombinedConditions ::
  "'f lib \<Rightarrow> 'f world \<Rightarrow> string \<Rightarrow> string \<Rightarrow> string \<Rightarrow> 'f world" where
  "checkCombinedConditions L w senderID message event =
     (let alarmEvent = Load w (senderID @ ''_ALARM_METER_DEVICE'');
          powerEvent = Load w (senderID @ ''_POWER_BACKUP_MODE'')
      in case alarmEvent of
           None \<Rightarrow> w
         | Some connectionMissing \<Rightarrow>
             (case powerEvent of
                None \<Rightarrow> w
              | Some powerBackupMode \<Rightarrow>
                  if connectionMissing \<and> powerBackupMode
                  then handlePowerPln L w senderID message event
                  else w))"

definition handlePowerBackupModeEvent ::
  "'f lib \<Rightarrow> 'f world \<Rightarrow> string \<Rightarrow> string \<Rightarrow> string \<Rightarrow> 'f world" where
  "handlePowerBackupModeEvent L w senderID message event =
     (case json_Unmarshal L message of
        None \<Rightarrow> w
      | Some msgData \<Rightarrow>
          (case timestampOf L msgData of
             None \<Rightarrow> w
           | Some timestamp \<Rightarrow>
               (let powerBackupMessage =
                      \<lparr>EventName = event, Tag = ''power_modem_'' @ senderID,
                       Value = AnyInt 1, Status = True, Msg = message, Time = timestamp,
                       Sumber = senderID\<rparr>
                in if powerBackupMessage \<noteq> zeroEventMessage then
                     checkCombinedConditions L
                       (Store (sendDataPoint (processAndSaveData w powerBackupMessage)
                                 powerBackupMessage)
                          (senderID @ ''_POWER_BACKUP_MODE'') True)
                       senderID message event
                   else w)))"

definition handlePowerRestoreModeEvent ::
  "'f lib \<Rightarrow> 'f world \<Rightarrow> string \<Rightarrow> string \<Rightarrow> string \<Rightarrow> 'f world" where
  "handlePowerRestoreModeEvent L w senderID message event =
     (case json_Unmarshal L message of
        None \<Rightarrow> w
      | Some msgData \<Rightarrow>
          (case timestampOf L msgData of
             None \<Rightarrow> w
           | Some timestamp \<Rightarrow>
               (let powerRestoreMessage =
                      \<lparr>EventName = event, Tag = ''power_modem_'' @ senderID,
                       Value = AnyInt 0, Status = True, Msg = message, Time = timestamp,
                       Sumber = senderID\<rparr>
                in if powerRestoreMessage \<noteq> zeroEventMessage then
                     checkCombinedConditions L
                       (Store (sendDataPoint (processAndSaveData w powerRestoreMessage)
                                 powerRestoreMessage)
                          (senderID @ ''_POWER_RESTORE_MODE'') True)
                       senderID message event
                   else w)))"

definition handleAlarmMeterDeviceEvent ::
  "'f lib \<Rightarrow> 'f world \<Rightarrow> string \<Rightarrow> string \<Rightarrow> string \<Rightarrow> 'f world" where
  "handleAlarmMeterDeviceEvent L w senderID message event =
     (case json_Unmarshal L message of
        None \<Rightarrow> w
      | Some msgData \<Rightarrow>
          (case timestampOf L msgData of
             None \<Rightarrow> w
           | Some timestamp \<Rightarrow>
               (let alarmMeterDeviceMessage =
                      \<lparr>EventName = event, Tag = ''alarm_connection_missing_'' @ senderID,
                       Value = AnyInt 1, Status = True, Msg = message, Time = timestamp,
                       Sumber = senderID\<rparr>
                in if alarmMeterDeviceMessage \<noteq> zeroEventMessage then
                     checkCombinedConditions L
                       (Store (sendDataPoint (processAndSaveData w alarmMeterDeviceMessage)
                                 alarmMeterDeviceMessage)
                          (senderID @ ''_ALARM_METER_DEVICE'') True)
                       senderID message event
                   else w)))"

definition handleClearAlarmMeterDeviceEvent ::
  "'f lib \<Rightarrow> 'f world \<Rightarrow> string \<Rightarrow> string \<Rightarrow> string \<Rightarrow> 'f world" where
  "handleClearAlarmMeterDeviceEvent L w senderID message event =
     (case json_Unmarshal L message of
        None \<Rightarrow> w
      | Some msgData \<Rightarrow>
          (case timestampOf L msgData of
             None \<Rightarrow> w
           | Some timestamp \<Rightarrow>
               (let clearAlarmMeterDeviceMessage =
                      \<lparr>EventName = event, Tag = ''alarm_connection_missing_'' @ senderID,
                       Value = AnyInt 0, Status = True, Msg = message, Time = timestamp,
                       Sumber = senderID\<rparr>
                in if clearAlarmMeterDeviceMessage \<noteq> zeroEventMessage then
                     checkCombinedConditions L
                       (Store (sendDataPoint (processAndSaveData w clearAlarmMeterDeviceMessage)
                                 clearAlarmMeterDeviceMessage)
                          (senderID @ ''_ALARM_METER_DEVICE'') True)
                       senderID message event
                   else w)))"

section \<open>The pass-through handlers\<close>

text \<open>
  \<open>handleStatusModemOn\<close>, \<open>handleStatusModemOff\<close>,
  \<open>handleAlarmMeterDeviceTemperEvent\<close>, \<open>handleClearAlarmMeterDeviceTemperEvent\<close>,
  \<open>handleAlarmTemperatureEvent\<close> and \<open>handleClearAlarmTemperatureEvent\<close> have one
  body and differ in the prefix of the tag and in the value (1 or 0) only.
\<close>

definition handlePassThrough ::
  "string \<Rightarrow> int \<Rightarrow> 'f lib \<Rightarrow> 'f world \<Rightarrow> string \<Rightarrow> string \<Rightarrow> string \<Rightarrow> 'f world" where
  "handlePassThrough tagPrefix v L w senderID message event =
     (case json_Unmarshal L message of
        None \<Rightarrow> w
      | Some msgData \<Rightarrow>
          (case timestampOf L msgData of
             None \<Rightarrow> w
           | Some timestamp \<Rightarrow>
               (let m = \<lparr>EventName = event, Tag = tagPrefix @ senderID,
                         Value = AnyInt v, Status = True, Msg = message, Time = timestamp,
                         Sumber = senderID\<rparr>
                in if m \<noteq> zeroEventMessage
                   then sendDataPoint (processAndSaveData w m) m
                   else w)))"

definition handleStatusModemOn ::
  "'f lib \<Rightarrow> 'f world \<Rightarrow> string \<Rightarrow> string \<Rightarrow> string \<Rightarrow> 'f world" where
  "handleStatusModemOn = handlePassThrough ''status_modem_'' 1"

definition handleStatusModemOff ::
  "'f lib \<Rightarrow> 'f world \<Rightarrow> string \<Rightarrow> string \<Rightarrow> string \<Rightarrow> 'f world" where
  "handleStatusModemOff = handlePassThrough ''status_modem_'' 0"

definition handleAlarmMeterDeviceTemperEvent ::
  "'f lib \<Rightarrow> 'f world \<Rightarrow> string \<Rightarrow> string \<Rightarrow> string \<Rightarrow> 'f world" where
  "handleAlarmMeterDeviceTemperEvent = handlePassThrough ''alarm_meter_temper_'' 1"

definition handleClearAlarmMeterDeviceTemperEvent ::
  "'f lib \<Rightarrow> 'f world \<Rightarrow> string \<Rightarrow> string \<Rightarrow> string \<Rightarrow> 'f world" where
  "handleClearAlarmMeterDeviceTemperEvent = handlePassThrough ''alarm_meter_temper_'' 0"

definition handleAlarmTemperatureEvent ::
  "'f lib \<Rightarrow> 'f world \<Rightarrow> string \<Rightarrow> string \<Rightarrow> string \<Rightarrow> 'f world" where
  "handleAlarmTemperatureEvent = handlePassThrough ''alarm_temperature_'' 1"

definition handleClearAlarmTemperatureEvent ::
  "'f lib \<Rightarrow> 'f world \<Rightarrow> string \<Rightarrow> string \<Rightarrow> string \<Rightarrow> 'f world" where
  "handleClearAlarmTemperatureEvent = handlePassThrough ''alarm_temperature_'' 0"

definition handleTemperatureEvent ::
  "'f lib \<Rightarrow> 'f world \<Rightarrow> string \<Rightarrow> string \<Rightarrow> string \<Rightarrow> 'f world" where
  "handleTemperatureEvent L w senderID message event =
     (case json_Unmarshal L message of
        None \<Rightarrow> w
      | Some msgData \<Rightarrow>
          (case msgData ''message'' of
             None \<Rightarrow> w
           | Some msg \<Rightarrow>
               (case timestampOf L msgData of
                  None \<Rightarrow> w
                | Some timestamp \<Rightarrow>
                    (let temperatureMessage =
                           \<lparr>EventName = event, Tag = ''temperature_'' @ senderID,
                            Value = ifaceOf msg, Status = True, Msg = message,
                            Time = timestamp, Sumber = senderID\<rparr>
                     in if temperatureMessage \<noteq> zeroEventMessage
                        then sendDataPoint (processAndSaveData w temperatureMessage)
                               temperatureMessage
                        else w))))"

text \<open>
  \<open>findNumbersInSentences\<close>: the first match of the regular expression \<open>\d+\<close> (the
  leftmost maximal run of ASCII digits), converted by \<open>strconv.Atoi\<close>, which fails when
  the number does not fit a 64-bit \<open>int\<close>; 0 when there is no match or no conversion.
\<close>

definition isDigit :: "char \<Rightarrow> bool" where
  "isDigit c = (c \<in> set ''0123456789'')"

definition digitsValue :: "string \<Rightarrow> nat" where
  "digitsValue ds = foldl (\<lambda>n c. 10 * n + (of_char c - 48)) 0 ds"

definition findNumbersInSentences :: "string \<Rightarrow> int" where
  "findNumbersInSentences s =
     (let firstMatch = takeWhile isDigit (dropWhile (\<lambda>c. \<not> isDigit c) s)
      in if firstMatch \<noteq> [] \<and> digitsValue firstMatch \<le> 2 ^ 63 - 1
         then int (digitsValue firstMatch)
         else 0)"

text \<open>
  \<open>handleSetTemperatureEvents\<close> reads \<open>msgData["message"].(string)\<close> with the
  one-result form of the type assertion, which panics when the field is absent or is
  not a string.
\<close>

definition handleSetTemperatureEvents ::
  "'f lib \<Rightarrow> 'f world \<Rightarrow> string \<Rightarrow> string \<Rightarrow> error + 'f world" where
  "handleSetTemperatureEvents L w senderID message =
     (case json_Unmarshal L message of
        None \<Rightarrow> Inr w
      | Some msgData \<Rightarrow>
          (case timestampOf L msgData of
             None \<Rightarrow> Inr w
           | Some timestamp \<Rightarrow>
               (case msgData ''message'' of
                  Some (JStr s) \<Rightarrow>
                    (let setTemperatureMessage =
                           \<lparr>EventName = [], Tag = senderID @ ''_set_temperature'',
                            Value = AnyInt (findNumbersInSentences s), Status = True,
                            Msg = message, Time = timestamp, Sumber = senderID\<rparr>
                     in if setTemperatureMessage \<noteq> zeroEventMessage
                        then Inr (sendDataPoint (processAndSaveData w setTemperatureMessage)
                                    setTemperatureMessage)
                        else Inr w)
                | _ \<Rightarrow> Inl PanicTypeAssertion)))"

definition handleGeolocationEvent ::
  "'f lib \<Rightarrow> 'f world \<Rightarrow> string \<Rightarrow> string \<Rightarrow> string \<Rightarrow> 'f world" where
  "handleGeolocationEvent L w messageStr senderID event =
     (case json_Unmarshal L messageStr of
        None \<Rightarrow> w
      | Some messageData \<Rightarrow>
          (case messageData ''message'' of
             Some (JStr geolocationMessage) \<Rightarrow>
               (case geolocate L geolocationMessage of
                  None \<Rightarrow> w
                | Some (locationData, dataBytes) \<Rightarrow>
                    (let w1 = sendDataPoint w
                                \<lparr>EventName = event, Tag = ''geolocation_'' @ senderID,
                                 Value = AnyJson locationData, Status = True, Msg = [],
                                 Time = 0, Sumber = senderID\<rparr>
                     in w1\<lparr>rows := rows w1 @
                            [\<lparr>row_sender_id = senderID, row_message = dataBytes,
                              row_timestamp = None\<rparr>]\<rparr>))
           | _ \<Rightarrow> w))"

section \<open>The subscription callback\<close>

definition getTimestamp :: "'f lib \<Rightarrow> (string \<rightharpoonup> 'f jval) \<Rightarrow> (64 word + string) option" where
  "getTimestamp L msgData =
     (case msgData ''timestamp'' of
        Some (JNum timestamp) \<Rightarrow> Some (Inl (int64 L timestamp))
      | Some (JStr timestamp) \<Rightarrow> Some (Inr timestamp)
      | _ \<Rightarrow> None)"

text \<open>The \<open>switch event\<close> of the callback (lines 1028 to 1057).\<close>

definition dispatch ::
  "'f lib \<Rightarrow> 'f world \<Rightarrow> string \<Rightarrow> string \<Rightarrow> string \<Rightarrow> error + 'f world" where
  "dispatch L w senderID message event =
     (if event = ''TEMPERATURE'' then Inr (handleTemperatureEvent L w senderID message event)
      else if event = ''ALARM_METER_TEMPER''
        then Inr (handleAlarmMeterDeviceTemperEvent L w senderID message event)
      else if event = ''CLEAR_ALARM_METER_TEMPER''
        then Inr (handleClearAlarmMeterDeviceTemperEvent L w senderID message event)
      else if event = ''POWER_BACKUP_MODE''
        then Inr (handlePowerBackupModeEvent L w senderID message event)
      else if event = ''POWER_RESTORE_MODE''
        then Inr (handlePowerRestoreModeEvent L w senderID message event)
      else if event = ''STATUS_MODEM_ON''
        then Inr (handleStatusModemOn L w senderID message event)
      else if event = ''STATUS_MODEM_OFF''
        then Inr (handleStatusModemOff L w senderID message event)
      else if event = ''ALARM_TEMPERATURE''
        then Inr (handleAlarmTemperatureEvent L w senderID message event)
      else if event = ''CLEAR_ALARM_TEMPERATURE''
        then Inr (handleClearAlarmTemperatureEvent L w senderID message event)
      else if event = ''SET_TEMPERATURE''
        then handleSetTemperatureEvents L w senderID message
      else if event = ''ALARM_METER_DEVICE''
        then Inr (handleAlarmMeterDeviceEvent L w senderID message event)
      else if event = ''CLEAR_ALARM_METER_DEVICE''
        then Inr (handleClearAlarmMeterDeviceEvent L w senderID message event)
      else if event = ''GEOLOCATION''
        then Inr (handleGeolocationEvent L w message senderID event)
      else Inr w)"

text \<open>\<open>strings.Split(s, "/")\<close>.\<close>

fun Split :: "string \<Rightarrow> char \<Rightarrow> string list" where
  "Split [] sep = [] # []"
| "Split (c # cs) sep =
     (if c = sep then [] # Split cs sep
      else (case Split cs sep of [] \<Rightarrow> [c] # [] | p # ps \<Rightarrow> (c # p) # ps))"

text \<open>
  The callback of \<open>mqttClient.Subscribe\<close> (lines 1002 to 1059). The sender is the third
  segment of the topic; indexing a shorter split panics.
\<close>

definition onMessage :: "'f lib \<Rightarrow> 'f world \<Rightarrow> string \<Rightarrow> string \<Rightarrow> error + 'f world" where
  "onMessage L w topic payload =
     (case json_Unmarshal L payload of
        None \<Rightarrow> Inr w
      | Some msgData \<Rightarrow>
          (case msgData ''event'' of
             Some (JStr event) \<Rightarrow>
               (let parts = Split topic (CHR ''/'')
                in if length parts \<le> 2 then Inl PanicIndexOutOfRange
                   else (let senderID = parts ! 2; message = payload
                         in case getTimestamp L msgData of
                              None \<Rightarrow> Inr w
                            | Some timestamp \<Rightarrow> dispatch L w senderID message event))
           | _ \<Rightarrow> Inr w))"

text \<open>
  Messages processed one after the other, each given as sender, payload and event name;
  a panic ends the process.
\<close>

fun run :: "'f lib \<Rightarrow> 'f world \<Rightarrow> (string \<times> string \<times> string) list \<Rightarrow> error + 'f world" where
  "run L w [] = Inr w"
| "run L w ((senderID, message, event) # rest) =
     (case dispatch L w senderID message event of
        Inl e \<Rightarrow> Inl e
      | Inr w' \<Rightarrow> run L w' rest)"

section \<open>Notions used to state the properties\<close>

text \<open>The decoding steps every handler performs before it touches the state: the
  timestamp it computes, or \<open>None\<close> when it logs and returns.\<close>

definition decode :: "'f lib \<Rightarrow> string \<Rightarrow> 64 word option" where
  "decode L message =
     (case json_Unmarshal L message of
        None \<Rightarrow> None
      | Some msgData \<Rightarrow> timestampOf L msgData)"

text \<open>The data point published for a message with an integer value, and the row saved.\<close>

definition point :: "string \<Rightarrow> string \<Rightarrow> int \<Rightarrow> 64 word \<Rightarrow> string \<Rightarrow> 'f datapoint" where
  "point e tagPrefix v t sid =
     \<lparr>dp_event = e, dp_tag = tagPrefix @ sid, dp_value = AnyInt v, dp_time = t,
      dp_id_modem = sid\<rparr>"

definition dbrow :: "string \<Rightarrow> string \<Rightarrow> 64 word \<Rightarrow> row" where
  "dbrow sid m t = \<lparr>row_sender_id = sid, row_message = m, row_timestamp = Some t\<rparr>"

text \<open>Both conjunction flags of a sender are present.\<close>

definition conjSet :: "'f world \<Rightarrow> string \<Rightarrow> bool" where
  "conjSet w sid =
     (eventState w (sid @ ''_ALARM_METER_DEVICE'') = Some True
      \<and> eventState w (sid @ ''_POWER_BACKUP_MODE'') = Some True)"

definition pointsOf :: "error + 'f world \<Rightarrow> 'f datapoint list" where
  "pointsOf r = (case r of Inl e \<Rightarrow> [] | Inr w \<Rightarrow> datapoints w)"

definition stateOf :: "error + 'f world \<Rightarrow> string \<Rightarrow> bool option" where
  "stateOf r k = (case r of Inl e \<Rightarrow> None | Inr w \<Rightarrow> eventState w k)"

definition newPoints :: "'f world \<Rightarrow> error + 'f world \<Rightarrow> 'f datapoint list" where
  "newPoints w r = drop (length (datapoints w)) (pointsOf r)"

text \<open>The number of \<open>POWER_PLN\<close> data points with value \<open>v\<close> published for a sender.\<close>

definition plnCount :: "int \<Rightarrow> string \<Rightarrow> 'f datapoint list \<Rightarrow> nat" where
  "plnCount v sid ps =
     length (filter (\<lambda>d. dp_event d = ''POWER_PLN'' \<and> dp_value d = AnyInt v
                          \<and> dp_id_modem d = sid) ps)"

text \<open>The time the specification asks for: the parsed value, scaled by 1000 when the
  timestamp string has length 10.\<close>

definition specTime :: "string \<Rightarrow> 64 word \<Rightarrow> 64 word" where
  "specTime timestampStr parsed = (if length timestampStr = 10 then parsed * 1000 else parsed)"


text \<open>The second state extends the first by as many rows as data points, which all
  carry the time \<open>t\<close>.\<close>

definition timed :: "64 word \<Rightarrow> 'f world \<Rightarrow> 'f world \<Rightarrow> bool" where
  "timed t w w' =
     (\<exists>ps rs. datapoints w' = datapoints w @ ps \<and> rows w' = rows w @ rs
        \<and> length rs = length ps
        \<and> (\<forall>d \<in> set ps. dp_time d = t) \<and> (\<forall>r \<in> set rs. row_timestamp r = Some t))"

text \<open>The four keys of a sender in the store.\<close>

definition flagKeys :: "string \<Rightarrow> string set" where
  "flagKeys sid =
     {sid @ ''_POWER_BACKUP_MODE'', sid @ ''_POWER_RESTORE_MODE'',
      sid @ ''_ALARM_METER_DEVICE'', sid @ ''_CLEAR_ALARM_METER_DEVICE''}"

text \<open>A handler that neither reads nor writes the store: on every state it does what it
  does on the empty state, appended to the rows and data points already there.\<close>

definition stateless :: "('f world \<Rightarrow> error + 'f world) \<Rightarrow> bool" where
  "stateless h =
     (\<forall>w. h w =
        (case h \<lparr>eventState = Map.empty, rows = [], datapoints = []\<rparr> of
           Inl e \<Rightarrow> Inl e
         | Inr w0 \<Rightarrow> Inr (w\<lparr>rows := rows w @ rows w0,
                            datapoints := datapoints w @ datapoints w0\<rparr>)))"

text \<open>What an event of sender \<open>A\<close> may do to the key \<open>k\<close>: leave it, set one of
  the four keys of \<open>A\<close> to \<open>true\<close>, or delete one of the two one-shot keys of \<open>A\<close>.\<close>

definition keeps :: "string \<Rightarrow> string \<Rightarrow> 'f world \<Rightarrow> 'f world \<Rightarrow> bool" where
  "keeps A k w w' =
     (eventState w' k = eventState w k
      \<or> (eventState w' k = Some True \<and> k \<in> {A @ ''_POWER_BACKUP_MODE'', A @ ''_POWER_RESTORE_MODE'', A @ ''_ALARM_METER_DEVICE'', A @ ''_CLEAR_ALARM_METER_DEVICE''})
      \<or> (eventState w' k = None \<and> k \<in> {A @ ''_POWER_RESTORE_MODE'', A @ ''_CLEAR_ALARM_METER_DEVICE''}))"

subsection \<open>Concrete inputs\<close>

text \<open>
  The payload \<open>{"event":"E","timestamp":"1700000000"}\<close> for an event name \<open>E\<close>, and
  an instance of the library functions that agrees with \<open>encoding/json\<close> and
  \<open>strconv\<close> on these payloads: the object with the two string fields, and the number
  1700000000, which \<open>float64\<close> holds exactly and \<open>int64\<close> converts to itself. The
  instance reports an error on every other input, so it is used at these payloads and at
  inputs that are not JSON only.
\<close>

definition quoted :: "string \<Rightarrow> string" where
  "quoted s = CHR 0x22 # s @ [CHR 0x22]"

definition examplePayload :: "string \<Rightarrow> string" where
  "examplePayload e =
     ''{'' @ quoted ''event'' @ '':'' @ quoted e @ '','' @
     quoted ''timestamp'' @ '':'' @ quoted ''1700000000'' @ ''}''"

definition exampleEvents :: "string list" where
  "exampleEvents =
     [''POWER_BACKUP_MODE'', ''POWER_RESTORE_MODE'', ''ALARM_METER_DEVICE'',
      ''CLEAR_ALARM_METER_DEVICE'', ''SET_TEMPERATURE'']"

definition exampleLib :: "int lib" where
  "exampleLib =
     \<lparr>json_Unmarshal =
        map_of (map (\<lambda>e. (examplePayload e,
                           [''event'' \<mapsto> JStr e, ''timestamp'' \<mapsto> JStr ''1700000000'']))
                  exampleEvents),
      strconv_ParseFloat = map_of [(''1700000000'', 1700000000)],
      int64 = word_of_int,
      geolocate = (\<lambda>s. None)\<rparr>"

definition emptyWorld :: "'f world" where
  "emptyWorld = \<lparr>eventState = Map.empty, rows = [], datapoints = []\<rparr>"

text \<open>A state in which both conjunction flags of sender \<open>A\<close> are present.\<close>

definition exampleWorld :: "int world" where
  "exampleWorld =
     \<lparr>eventState = [''A_ALARM_METER_DEVICE'' \<mapsto> True, ''A_POWER_BACKUP_MODE'' \<mapsto> True],
      rows = [], datapoints = []\<rparr>"








text \<open>The event \<open>e\<close> of sender \<open>sid\<close> with the example payload.\<close>

definition ev :: "string \<Rightarrow> string \<Rightarrow> string \<times> string \<times> string" where
  "ev sid e = (sid, examplePayload e, e)"

section \<open>What one correlation event does\<close>

lemmas store_defs =
  Store_def Load_def Delete_def processAndSaveData_def sendDataPoint_def zeroEventMessage_def

lemmas handler_defs = handleStatusModemOn_def handleStatusModemOff_def
  handleAlarmMeterDeviceTemperEvent_def handleClearAlarmMeterDeviceTemperEvent_def
  handleAlarmTemperatureEvent_def handleClearAlarmTemperatureEvent_def

lemma decodeE:
  assumes "decode L m = Some t"
  obtains md where "json_Unmarshal L m = Some md" and "timestampOf L md = Some t"
  using assms by (auto simp: decode_def split: option.splits)

lemma backup_step:
  assumes "decode L m = Some t"
  shows "handlePowerBackupModeEvent L w sid m ''POWER_BACKUP_MODE'' =
     w\<lparr>eventState := (eventState w)(sid @ ''_POWER_BACKUP_MODE'' \<mapsto> True),
       rows := rows w @ dbrow sid m t #
         (if eventState w (sid @ ''_ALARM_METER_DEVICE'') = Some True
          then [dbrow sid m t] else []),
       datapoints := datapoints w @ point ''POWER_BACKUP_MODE'' ''power_modem_'' 1 t sid #
         (if eventState w (sid @ ''_ALARM_METER_DEVICE'') = Some True
          then [point ''POWER_PLN'' ''power_pln_'' 1 t sid] else [])\<rparr>"
  using assms
  by (elim decodeE)
     (auto simp add: handlePowerBackupModeEvent_def checkCombinedConditions_def
        handlePowerPln_def store_defs point_def dbrow_def Let_def split: option.splits)

lemma alarm_step:
  assumes "decode L m = Some t"
  shows "handleAlarmMeterDeviceEvent L w sid m ''ALARM_METER_DEVICE'' =
     w\<lparr>eventState := (eventState w)(sid @ ''_ALARM_METER_DEVICE'' \<mapsto> True),
       rows := rows w @ dbrow sid m t #
         (if eventState w (sid @ ''_POWER_BACKUP_MODE'') = Some True
          then [dbrow sid m t] else []),
       datapoints := datapoints w @
         point ''ALARM_METER_DEVICE'' ''alarm_connection_missing_'' 1 t sid #
         (if eventState w (sid @ ''_POWER_BACKUP_MODE'') = Some True
          then [point ''POWER_PLN'' ''power_pln_'' 1 t sid] else [])\<rparr>"
  using assms
  by (elim decodeE)
     (auto simp add: handleAlarmMeterDeviceEvent_def checkCombinedConditions_def
        handlePowerPln_def store_defs point_def dbrow_def Let_def split: option.splits)

lemma restore_step:
  assumes "decode L m = Some t"
  shows "handlePowerRestoreModeEvent L w sid m ''POWER_RESTORE_MODE'' =
     (if conjSet w sid then
        w\<lparr>eventState :=
            (if eventState w (sid @ ''_CLEAR_ALARM_METER_DEVICE'') = Some True
             then (eventState w)(sid @ ''_CLEAR_ALARM_METER_DEVICE'' := None)
             else eventState w)(sid @ ''_POWER_RESTORE_MODE'' := None),
          rows := rows w @ [dbrow sid m t, dbrow sid m t],
          datapoints := datapoints w @
            [point ''POWER_RESTORE_MODE'' ''power_modem_'' 0 t sid,
             point ''POWER_PLN'' ''power_pln_'' 0 t sid]\<rparr>
      else
        w\<lparr>eventState := (eventState w)(sid @ ''_POWER_RESTORE_MODE'' \<mapsto> True),
          rows := rows w @ [dbrow sid m t],
          datapoints := datapoints w @
            [point ''POWER_RESTORE_MODE'' ''power_modem_'' 0 t sid]\<rparr>)"
  using assms
  by (elim decodeE)
     (auto simp add: handlePowerRestoreModeEvent_def checkCombinedConditions_def
        handlePowerPln_def handleClearPowerPlnEvent_def conjSet_def store_defs point_def
        dbrow_def Let_def fun_upd_twist split: option.splits)

lemma clear_step:
  assumes "decode L m = Some t"
  shows "handleClearAlarmMeterDeviceEvent L w sid m ''CLEAR_ALARM_METER_DEVICE'' =
     (if eventState w (sid @ ''_POWER_BACKUP_MODE'') = Some True then
        w\<lparr>eventState :=
            (if eventState w (sid @ ''_POWER_RESTORE_MODE'') = Some True
             then (eventState w)(sid @ ''_POWER_RESTORE_MODE'' := None)
             else eventState w)
            (sid @ ''_ALARM_METER_DEVICE'' \<mapsto> True,
             sid @ ''_CLEAR_ALARM_METER_DEVICE'' := None),
          rows := rows w @ [dbrow sid m t, dbrow sid m t],
          datapoints := datapoints w @
            [point ''CLEAR_ALARM_METER_DEVICE'' ''alarm_connection_missing_'' 0 t sid,
             point ''POWER_PLN'' ''power_pln_'' 0 t sid]\<rparr>
      else
        w\<lparr>eventState := (eventState w)(sid @ ''_ALARM_METER_DEVICE'' \<mapsto> True),
          rows := rows w @ [dbrow sid m t],
          datapoints := datapoints w @
            [point ''CLEAR_ALARM_METER_DEVICE'' ''alarm_connection_missing_'' 0 t sid]\<rparr>)"
  using assms
  by (elim decodeE)
     (auto simp add: handleClearAlarmMeterDeviceEvent_def checkCombinedConditions_def
        handlePowerPln_def handleClearPowerPlnEvent_def conjSet_def store_defs point_def
        dbrow_def Let_def fun_upd_twist split: option.splits)

lemma dispatch_backup:
  "dispatch L w sid m ''POWER_BACKUP_MODE'' =
     Inr (handlePowerBackupModeEvent L w sid m ''POWER_BACKUP_MODE'')"
  by (simp add: dispatch_def)

lemma dispatch_alarm:
  "dispatch L w sid m ''ALARM_METER_DEVICE'' =
     Inr (handleAlarmMeterDeviceEvent L w sid m ''ALARM_METER_DEVICE'')"
  by (simp add: dispatch_def)

lemma dispatch_restore:
  "dispatch L w sid m ''POWER_RESTORE_MODE'' =
     Inr (handlePowerRestoreModeEvent L w sid m ''POWER_RESTORE_MODE'')"
  by (simp add: dispatch_def)

lemma dispatch_clear:
  "dispatch L w sid m ''CLEAR_ALARM_METER_DEVICE'' =
     Inr (handleClearAlarmMeterDeviceEvent L w sid m ''CLEAR_ALARM_METER_DEVICE'')"
  by (simp add: dispatch_def)

lemmas dispatch_corr = dispatch_backup dispatch_alarm dispatch_restore dispatch_clear

lemma decode_None_iff:
  "decode L message = None \<longleftrightarrow>
     (json_Unmarshal L message = None
      \<or> (\<exists>msgData. json_Unmarshal L message = Some msgData
            \<and> (\<forall>s. msgData ''timestamp'' = Some (JStr s) \<longrightarrow> strconv_ParseFloat L s = None)))"
  by (auto simp: decode_def timestampOf_def Let_def split: option.splits jval.splits)

subsection \<open>The concrete inputs decode\<close>

lemma decode_example:
  "e \<in> set exampleEvents \<Longrightarrow> decode exampleLib (examplePayload e) = Some 1700000000000"
  by (auto simp: decode_def exampleLib_def exampleEvents_def examplePayload_def quoted_def
      timestampOf_def)

lemma ex_dec:
  "decode exampleLib (examplePayload ''POWER_BACKUP_MODE'') = Some 1700000000000"
  "decode exampleLib (examplePayload ''POWER_RESTORE_MODE'') = Some 1700000000000"
  "decode exampleLib (examplePayload ''ALARM_METER_DEVICE'') = Some 1700000000000"
  "decode exampleLib (examplePayload ''CLEAR_ALARM_METER_DEVICE'') = Some 1700000000000"
  "decode exampleLib (examplePayload ''SET_TEMPERATURE'') = Some 1700000000000"
  by (simp_all add: decode_example exampleEvents_def)

lemmas ex_steps =
  backup_step [OF ex_dec(1)] restore_step [OF ex_dec(2)]
  alarm_step [OF ex_dec(3)] clear_step [OF ex_dec(4)]

lemmas ex_eval =
  ev_def dispatch_corr ex_steps emptyWorld_def exampleWorld_def pointsOf_def stateOf_def
  plnCount_def point_def conjSet_def

section \<open>The conjunction: POWER\_PLN with value 1\<close>

lemma conj_step:
  assumes "decode L m = Some t" and "conjSet w sid"
    and "e = ''POWER_BACKUP_MODE'' \<or> e = ''ALARM_METER_DEVICE''"
  shows "\<exists>w'. dispatch L w sid m e = Inr w' \<and> conjSet w' sid
           \<and> plnCount 1 sid (datapoints w') = plnCount 1 sid (datapoints w) + 1"
  using assms
  by (auto simp: dispatch_corr backup_step alarm_step conjSet_def plnCount_def point_def)

text \<open>
  C3 (Scenario 1). From a state in which neither conjunction flag of sender \<open>A\<close> is
  present, a \<open>POWER_BACKUP_MODE\<close> event with a payload that decodes publishes its own
  data point and no \<open>POWER_PLN\<close>; the \<open>ALARM_METER_DEVICE\<close> event that follows
  publishes its own data point and exactly one \<open>POWER_PLN\<close> with value 1.
\<close>

theorem scenario1_backup_then_alarm:
  assumes "decode L m1 = Some t1" and "decode L m2 = Some t2"
    and "eventState w (A @ ''_ALARM_METER_DEVICE'') = None"
    and "eventState w (A @ ''_POWER_BACKUP_MODE'') = None"
  shows "\<exists>w1 w2. dispatch L w A m1 ''POWER_BACKUP_MODE'' = Inr w1
           \<and> datapoints w1 = datapoints w @ [point ''POWER_BACKUP_MODE'' ''power_modem_'' 1 t1 A]
           \<and> dispatch L w1 A m2 ''ALARM_METER_DEVICE'' = Inr w2
           \<and> datapoints w2 = datapoints w1 @
                [point ''ALARM_METER_DEVICE'' ''alarm_connection_missing_'' 1 t2 A,
                 point ''POWER_PLN'' ''power_pln_'' 1 t2 A]"
  using assms by (simp add: dispatch_corr backup_step alarm_step)

theorem scenario1_backup_then_alarm_witness:
  "decode exampleLib (examplePayload ''POWER_BACKUP_MODE'') = Some 1700000000000
   \<and> decode exampleLib (examplePayload ''ALARM_METER_DEVICE'') = Some 1700000000000
   \<and> (\<exists>w1 w2.
        dispatch exampleLib emptyWorld ''A'' (examplePayload ''POWER_BACKUP_MODE'')
          ''POWER_BACKUP_MODE'' = Inr w1
        \<and> datapoints w1 = [point ''POWER_BACKUP_MODE'' ''power_modem_'' 1 1700000000000 ''A'']
        \<and> dispatch exampleLib w1 ''A'' (examplePayload ''ALARM_METER_DEVICE'')
            ''ALARM_METER_DEVICE'' = Inr w2
        \<and> datapoints w2 = datapoints w1 @
            [point ''ALARM_METER_DEVICE'' ''alarm_connection_missing_'' 1 1700000000000 ''A'',
             point ''POWER_PLN'' ''power_pln_'' 1 1700000000000 ''A''])"
  using scenario1_backup_then_alarm
    [of exampleLib "examplePayload ''POWER_BACKUP_MODE''" 1700000000000
        "examplePayload ''ALARM_METER_DEVICE''" 1700000000000 emptyWorld "''A''"]
  by (simp add: ex_dec emptyWorld_def)

text \<open>
  C1 as stated fails: after \<open>ALARM_METER_DEVICE\<close> and \<open>POWER_BACKUP_MODE\<close> of sender
  \<open>A\<close>, the repeated \<open>POWER_BACKUP_MODE\<close> publishes a second \<open>POWER_PLN\<close> with value 1.
\<close>

theorem power_pln_double_fire:
  "plnCount 1 ''A'' (pointsOf (run exampleLib emptyWorld
      [ev ''A'' ''ALARM_METER_DEVICE'', ev ''A'' ''POWER_BACKUP_MODE'',
       ev ''A'' ''POWER_BACKUP_MODE''])) = 2"
  by (simp add: ex_eval)

text \<open>
  C1 as amended. Once both conjunction flags of a sender are present, every further
  \<open>POWER_BACKUP_MODE\<close> or \<open>ALARM_METER_DEVICE\<close> event of that sender with a payload that
  decodes publishes exactly one more \<open>POWER_PLN\<close> with value 1 and leaves both flags
  present: \<open>n\<close> repeats publish \<open>n\<close> records (the emission is level-triggered).
\<close>

theorem power_pln_level_triggered:
  assumes "conjSet w sid"
    and "\<forall>(s, m, e) \<in> set es.
           s = sid \<and> (e = ''POWER_BACKUP_MODE'' \<or> e = ''ALARM_METER_DEVICE'')
           \<and> decode L m \<noteq> None"
  shows "\<exists>w'. run L w es = Inr w' \<and> conjSet w' sid
           \<and> plnCount 1 sid (datapoints w') = plnCount 1 sid (datapoints w) + length es"
  using assms
proof (induction es arbitrary: w)
  case Nil
  then show ?case by simp
next
  case (Cons x es)
  obtain s m e where x: "x = (s, m, e)" by (cases x)
  from Cons.prems(2) x have s: "s = sid"
    and e: "e = ''POWER_BACKUP_MODE'' \<or> e = ''ALARM_METER_DEVICE''"
    and "decode L m \<noteq> None" by auto
  then obtain t where t: "decode L m = Some t" by auto
  from conj_step [OF t Cons.prems(1) e] obtain w1 where
    w1: "dispatch L w sid m e = Inr w1" "conjSet w1 sid"
      "plnCount 1 sid (datapoints w1) = plnCount 1 sid (datapoints w) + 1"
    by blast
  from Cons.prems(2) have
    "\<forall>(s, m, e) \<in> set es.
       s = sid \<and> (e = ''POWER_BACKUP_MODE'' \<or> e = ''ALARM_METER_DEVICE'')
       \<and> decode L m \<noteq> None"
    by simp
  from Cons.IH [OF w1(2) this] obtain w' where
    "run L w1 es = Inr w'" "conjSet w' sid"
    "plnCount 1 sid (datapoints w') = plnCount 1 sid (datapoints w1) + length es"
    by blast
  with w1 x s show ?case by simp
qed

theorem power_pln_level_triggered_witness:
  "conjSet exampleWorld ''A''
   \<and> (\<exists>w'. run exampleLib exampleWorld
              [ev ''A'' ''POWER_BACKUP_MODE'', ev ''A'' ''ALARM_METER_DEVICE'',
               ev ''A'' ''POWER_BACKUP_MODE''] = Inr w'
         \<and> conjSet w' ''A'' \<and> plnCount 1 ''A'' (datapoints w') = 3)"
proof -
  have c: "conjSet exampleWorld ''A''"
    by (simp add: conjSet_def exampleWorld_def)
  have d: "\<forall>(s, m, e) \<in> set [ev ''A'' ''POWER_BACKUP_MODE'', ev ''A'' ''ALARM_METER_DEVICE'',
                               ev ''A'' ''POWER_BACKUP_MODE''].
             s = ''A'' \<and> (e = ''POWER_BACKUP_MODE'' \<or> e = ''ALARM_METER_DEVICE'')
             \<and> decode exampleLib m \<noteq> None"
    by (simp add: ev_def ex_dec)
  have z: "plnCount 1 ''A'' (datapoints exampleWorld) = 0"
    by (simp add: plnCount_def exampleWorld_def)
  from power_pln_level_triggered [OF c d] z c show ?thesis
    by (simp add: eval_nat_numeral)
qed

section \<open>The clear path: POWER\_PLN with value 0\<close>

text \<open>
  C2 as stated fails: with neither conjunction flag present, a \<open>POWER_RESTORE_MODE\<close>
  event sets its one-shot flag, publishes no \<open>POWER_PLN\<close> and leaves the flag in the
  store.
\<close>

theorem restore_without_conjunction_emits_nothing:
  "plnCount 0 ''A'' (pointsOf (dispatch exampleLib emptyWorld ''A''
      (examplePayload ''POWER_RESTORE_MODE'') ''POWER_RESTORE_MODE'')) = 0
   \<and> stateOf (dispatch exampleLib emptyWorld ''A''
        (examplePayload ''POWER_RESTORE_MODE'') ''POWER_RESTORE_MODE'')
        (''A'' @ ''_POWER_RESTORE_MODE'') = Some True"
  by (simp add: ex_eval)

text \<open>
  C2 as amended. The clear path runs behind the conjunction check of
  \<open>checkCombinedConditions\<close>. A \<open>POWER_RESTORE_MODE\<close> event with a payload that decodes
  publishes \<open>POWER_PLN\<close> with value 0 (once, after its own data point) if and only if both
  conjunction flags of the sender are present; then no one-shot flag of the sender is
  left set, otherwise its own one-shot flag stays set. A \<open>CLEAR_ALARM_METER_DEVICE\<close>
  event publishes \<open>POWER_PLN\<close> with value 0 once and leaves no one-shot flag set when
  both conjunction flags are present, and publishes none when \<open>POWER_BACKUP_MODE\<close> is not
  present.
\<close>

theorem power_pln_clear_gated_by_conjunction:
  assumes "decode L m = Some t"
  shows "(\<exists>w'. dispatch L w sid m ''POWER_RESTORE_MODE'' = Inr w'
            \<and> datapoints w' = datapoints w @
                 point ''POWER_RESTORE_MODE'' ''power_modem_'' 0 t sid #
                 (if conjSet w sid then [point ''POWER_PLN'' ''power_pln_'' 0 t sid] else [])
            \<and> (if conjSet w sid
               then eventState w' (sid @ ''_POWER_RESTORE_MODE'') = None
                  \<and> eventState w' (sid @ ''_CLEAR_ALARM_METER_DEVICE'') \<noteq> Some True
               else eventState w' (sid @ ''_POWER_RESTORE_MODE'') = Some True))
       \<and> (\<exists>w'. dispatch L w sid m ''CLEAR_ALARM_METER_DEVICE'' = Inr w'
            \<and> (conjSet w sid \<longrightarrow>
                 datapoints w' = datapoints w @
                   [point ''CLEAR_ALARM_METER_DEVICE'' ''alarm_connection_missing_'' 0 t sid,
                    point ''POWER_PLN'' ''power_pln_'' 0 t sid]
                 \<and> eventState w' (sid @ ''_CLEAR_ALARM_METER_DEVICE'') = None
                 \<and> eventState w' (sid @ ''_POWER_RESTORE_MODE'') \<noteq> Some True)
            \<and> (eventState w (sid @ ''_POWER_BACKUP_MODE'') \<noteq> Some True \<longrightarrow>
                 datapoints w' = datapoints w @
                   [point ''CLEAR_ALARM_METER_DEVICE'' ''alarm_connection_missing_'' 0 t sid]))"
  using assms by (simp add: dispatch_corr restore_step clear_step conjSet_def)

theorem power_pln_clear_gated_by_conjunction_witness:
  "decode exampleLib (examplePayload ''POWER_RESTORE_MODE'') = Some 1700000000000
   \<and> conjSet exampleWorld ''A''
   \<and> (\<exists>w'. dispatch exampleLib exampleWorld ''A'' (examplePayload ''POWER_RESTORE_MODE'')
              ''POWER_RESTORE_MODE'' = Inr w'
         \<and> datapoints w' =
             [point ''POWER_RESTORE_MODE'' ''power_modem_'' 0 1700000000000 ''A'',
              point ''POWER_PLN'' ''power_pln_'' 0 1700000000000 ''A'']
         \<and> eventState w' ''A_POWER_RESTORE_MODE'' = None)"
  using power_pln_clear_gated_by_conjunction
    [of exampleLib "examplePayload ''POWER_RESTORE_MODE''" 1700000000000 exampleWorld "''A''"]
  by (auto simp add: ex_dec exampleWorld_def conjSet_def)

text \<open>
  C4 fails on the code: \<open>handleClearAlarmMeterDeviceEvent\<close> stores the key
  \<open>_ALARM_METER_DEVICE\<close>, not \<open>_CLEAR_ALARM_METER_DEVICE\<close>. From the empty state a
  \<open>CLEAR_ALARM_METER_DEVICE\<close> event of sender \<open>A\<close> leaves the alarm flag set and the
  one-shot flag absent, and a \<open>POWER_BACKUP_MODE\<close> event after it publishes
  \<open>POWER_PLN\<close> with value 1 although no alarm was ever received.
\<close>

theorem clear_alarm_sets_alarm_flag:
  "stateOf (dispatch exampleLib emptyWorld ''A''
      (examplePayload ''CLEAR_ALARM_METER_DEVICE'') ''CLEAR_ALARM_METER_DEVICE'')
      (''A'' @ ''_ALARM_METER_DEVICE'') = Some True
   \<and> stateOf (dispatch exampleLib emptyWorld ''A''
        (examplePayload ''CLEAR_ALARM_METER_DEVICE'') ''CLEAR_ALARM_METER_DEVICE'')
        (''A'' @ ''_CLEAR_ALARM_METER_DEVICE'') = None
   \<and> plnCount 1 ''A'' (pointsOf (run exampleLib emptyWorld
        [ev ''A'' ''CLEAR_ALARM_METER_DEVICE'', ev ''A'' ''POWER_BACKUP_MODE''])) = 1"
  by (simp add: ex_eval)

text \<open>
  C5 as stated fails: after Scenario 1 and \<open>POWER_RESTORE_MODE\<close> one \<open>POWER_PLN\<close> with
  value 0 has been published, and the \<open>CLEAR_ALARM_METER_DEVICE\<close> event that follows
  publishes a second one.
\<close>

theorem scenario3_clear_emits_again:
  "plnCount 0 ''A'' (pointsOf (run exampleLib emptyWorld
      [ev ''A'' ''POWER_BACKUP_MODE'', ev ''A'' ''ALARM_METER_DEVICE'',
       ev ''A'' ''POWER_RESTORE_MODE''])) = 1
   \<and> plnCount 0 ''A'' (pointsOf (run exampleLib emptyWorld
        [ev ''A'' ''POWER_BACKUP_MODE'', ev ''A'' ''ALARM_METER_DEVICE'',
         ev ''A'' ''POWER_RESTORE_MODE'', ev ''A'' ''CLEAR_ALARM_METER_DEVICE''])) = 2"
  by (simp add: ex_eval)

text \<open>
  C5 as amended (Scenario 3). After Scenario 1, \<open>POWER_RESTORE_MODE\<close> publishes exactly
  one \<open>POWER_PLN\<close> with value 0, and a following \<open>CLEAR_ALARM_METER_DEVICE\<close> with no new
  backup/alarm cycle publishes exactly one more: each clearing event sets its own
  one-shot flag before the disjunction is evaluated, and both conjunction flags are
  still present.
\<close>

theorem scenario3_restore_then_clear:
  assumes "decode L m1 = Some t1" and "decode L m2 = Some t2"
    and "decode L m3 = Some t3" and "decode L m4 = Some t4"
    and "eventState w (A @ ''_ALARM_METER_DEVICE'') = None"
    and "eventState w (A @ ''_POWER_BACKUP_MODE'') = None"
  shows "\<exists>w'. run L w [(A, m1, ''POWER_BACKUP_MODE''), (A, m2, ''ALARM_METER_DEVICE''),
                       (A, m3, ''POWER_RESTORE_MODE''),
                       (A, m4, ''CLEAR_ALARM_METER_DEVICE'')] = Inr w'
           \<and> datapoints w' = datapoints w @
               [point ''POWER_BACKUP_MODE'' ''power_modem_'' 1 t1 A,
                point ''ALARM_METER_DEVICE'' ''alarm_connection_missing_'' 1 t2 A,
                point ''POWER_PLN'' ''power_pln_'' 1 t2 A,
                point ''POWER_RESTORE_MODE'' ''power_modem_'' 0 t3 A,
                point ''POWER_PLN'' ''power_pln_'' 0 t3 A,
                point ''CLEAR_ALARM_METER_DEVICE'' ''alarm_connection_missing_'' 0 t4 A,
                point ''POWER_PLN'' ''power_pln_'' 0 t4 A]"
  using assms
  by (simp add: dispatch_corr backup_step alarm_step restore_step clear_step conjSet_def)

theorem scenario3_restore_then_clear_witness:
  "decode exampleLib (examplePayload ''POWER_BACKUP_MODE'') = Some 1700000000000
   \<and> decode exampleLib (examplePayload ''ALARM_METER_DEVICE'') = Some 1700000000000
   \<and> decode exampleLib (examplePayload ''POWER_RESTORE_MODE'') = Some 1700000000000
   \<and> decode exampleLib (examplePayload ''CLEAR_ALARM_METER_DEVICE'') = Some 1700000000000
   \<and> (\<exists>w'. run exampleLib emptyWorld
              [ev ''A'' ''POWER_BACKUP_MODE'', ev ''A'' ''ALARM_METER_DEVICE'',
               ev ''A'' ''POWER_RESTORE_MODE'', ev ''A'' ''CLEAR_ALARM_METER_DEVICE''] = Inr w'
         \<and> datapoints w' =
             [point ''POWER_BACKUP_MODE'' ''power_modem_'' 1 1700000000000 ''A'',
              point ''ALARM_METER_DEVICE'' ''alarm_connection_missing_'' 1 1700000000000 ''A'',
              point ''POWER_PLN'' ''power_pln_'' 1 1700000000000 ''A'',
              point ''POWER_RESTORE_MODE'' ''power_modem_'' 0 1700000000000 ''A'',
              point ''POWER_PLN'' ''power_pln_'' 0 1700000000000 ''A'',
              point ''CLEAR_ALARM_METER_DEVICE'' ''alarm_connection_missing_'' 0 1700000000000 ''A'',
              point ''POWER_PLN'' ''power_pln_'' 0 1700000000000 ''A''])"
  using scenario3_restore_then_clear
    [of exampleLib "examplePayload ''POWER_BACKUP_MODE''" 1700000000000
        "examplePayload ''ALARM_METER_DEVICE''" 1700000000000
        "examplePayload ''POWER_RESTORE_MODE''" 1700000000000
        "examplePayload ''CLEAR_ALARM_METER_DEVICE''" 1700000000000 emptyWorld "''A''"]
  by (simp add: ex_dec emptyWorld_def ev_def)

section \<open>Malformed payloads\<close>

text \<open>
  Every event kind other than \<open>SET_TEMPERATURE\<close> returns without a panic, and a payload
  whose timestamp does not decode is dropped with the state unchanged by every handler
  that decodes it (the geolocation handler does not read the timestamp).
  \<open>handleSetTemperatureEvents\<close> panics whenever the timestamp decodes and the field
  \<open>message\<close> is not a string.
\<close>

lemma dispatch_panics_only_in_set_temperature:
  "e \<noteq> ''SET_TEMPERATURE'' \<Longrightarrow> \<exists>w'. dispatch L w sid m e = Inr w'"
  by (simp add: dispatch_def)

lemma dispatch_drops_undecodable:
  assumes "decode L m = None" and "e \<noteq> ''GEOLOCATION''"
  shows "dispatch L w sid m e = Inr w"
proof -
  have p: "handlePassThrough tag v L w sid m e' = w" for tag v e'
    using assms(1) by (simp add: handlePassThrough_def decode_def split: option.splits)
  have t: "handleTemperatureEvent L w sid m e' = w" for e'
    using assms(1) by (simp add: handleTemperatureEvent_def decode_def split: option.splits)
  from assms(1) consider "json_Unmarshal L m = None"
    | md where "json_Unmarshal L m = Some md" "timestampOf L md = None"
    by (auto simp: decode_def split: option.splits)
  then have s: "handleSetTemperatureEvents L w sid m = Inr w"
    by cases (simp_all add: handleSetTemperatureEvents_def)
  have c: "handlePowerBackupModeEvent L w sid m e' = w"
      "handlePowerRestoreModeEvent L w sid m e' = w"
      "handleAlarmMeterDeviceEvent L w sid m e' = w"
      "handleClearAlarmMeterDeviceEvent L w sid m e' = w" for e'
    using assms(1)
    by (simp_all add: decode_def handlePowerBackupModeEvent_def handlePowerRestoreModeEvent_def
        handleAlarmMeterDeviceEvent_def handleClearAlarmMeterDeviceEvent_def split: option.splits)
  from assms(2) show ?thesis
    by (simp add: dispatch_def handler_defs p t s c)
qed

lemma set_temperature_panics:
  assumes "json_Unmarshal L m = Some md" and "timestampOf L md = Some t"
    and "\<forall>s. md ''message'' \<noteq> Some (JStr s)"
  shows "handleSetTemperatureEvents L w sid m = Inl PanicTypeAssertion"
  using assms by (simp add: handleSetTemperatureEvents_def split: option.splits jval.splits)

text \<open>
  C7 fails on the code. The payload \<open>{"event":"SET_TEMPERATURE","timestamp":"1700000000"}\<close>
  has no field \<open>message\<close>; it passes the checks of the callback and the timestamp
  decoding, and \<open>handleSetTemperatureEvents\<close> panics at the type assertion.
\<close>

theorem set_temperature_panics_without_message:
  "onMessage exampleLib emptyWorld ''modem/event/A'' (examplePayload ''SET_TEMPERATURE'')
     = Inl PanicTypeAssertion"
  by (simp add: onMessage_def dispatch_def handleSetTemperatureEvents_def getTimestamp_def
      exampleLib_def exampleEvents_def examplePayload_def quoted_def timestampOf_def)

text \<open>
  C8. When decoding the payload fails (\<open>json.Unmarshal\<close> reports an error, or the field
  \<open>timestamp\<close> is missing or is not a string, or \<open>strconv.ParseFloat\<close> rejects it),
  each of the four correlation handlers returns the state it was given: the store, the
  rows and the data points are unchanged.
\<close>

theorem decode_failure_leaves_world_unchanged:
  assumes "json_Unmarshal L message = None
      \<or> (\<exists>msgData. json_Unmarshal L message = Some msgData
            \<and> (\<forall>s. msgData ''timestamp'' = Some (JStr s) \<longrightarrow> strconv_ParseFloat L s = None))"
  shows "handlePowerBackupModeEvent L w senderID message event = w
       \<and> handlePowerRestoreModeEvent L w senderID message event = w
       \<and> handleAlarmMeterDeviceEvent L w senderID message event = w
       \<and> handleClearAlarmMeterDeviceEvent L w senderID message event = w"
proof -
  from assms have "decode L message = None"
    by (simp add: decode_None_iff)
  then show ?thesis
    by (auto simp: decode_def handlePowerBackupModeEvent_def handlePowerRestoreModeEvent_def
        handleAlarmMeterDeviceEvent_def handleClearAlarmMeterDeviceEvent_def
        split: option.splits)
qed

theorem decode_failure_leaves_world_unchanged_witness:
  "json_Unmarshal exampleLib ''not json'' = None
   \<and> handlePowerBackupModeEvent exampleLib exampleWorld ''A'' ''not json''
       ''POWER_BACKUP_MODE'' = exampleWorld
   \<and> handlePowerRestoreModeEvent exampleLib exampleWorld ''A'' ''not json''
       ''POWER_RESTORE_MODE'' = exampleWorld
   \<and> handleAlarmMeterDeviceEvent exampleLib exampleWorld ''A'' ''not json''
       ''ALARM_METER_DEVICE'' = exampleWorld
   \<and> handleClearAlarmMeterDeviceEvent exampleLib exampleWorld ''A'' ''not json''
       ''CLEAR_ALARM_METER_DEVICE'' = exampleWorld"
proof -
  have u: "json_Unmarshal exampleLib ''not json'' = None"
    by (simp add: exampleLib_def exampleEvents_def examplePayload_def quoted_def)
  then have h: "json_Unmarshal exampleLib ''not json'' = None
      \<or> (\<exists>msgData. json_Unmarshal exampleLib ''not json'' = Some msgData
            \<and> (\<forall>s. msgData ''timestamp'' = Some (JStr s)
                  \<longrightarrow> strconv_ParseFloat exampleLib s = None))"
    by simp
  show ?thesis
    using u decode_failure_leaves_world_unchanged [OF h, of exampleWorld "''A''"]
    by simp
qed

section \<open>Senders share keys\<close>

text \<open>
  What every event does to the store, whatever its payload: it changes keys of its own
  sender only, and it deletes one-shot keys only.
\<close>

lemma keeps_refl: "keeps A k w w"
  by (simp add: keeps_def)

lemma keeps_emit: "keeps A k w0 w \<Longrightarrow> keeps A k w0 (sendDataPoint (processAndSaveData w m) m)"
  by (simp add: keeps_def store_defs)

lemma keeps_Store:
  "keeps A k w0 w \<Longrightarrow> f \<in> {''_POWER_BACKUP_MODE'', ''_POWER_RESTORE_MODE'', ''_ALARM_METER_DEVICE'', ''_CLEAR_ALARM_METER_DEVICE''}
   \<Longrightarrow> keeps A k w0 (Store w (A @ f) True)"
  by (auto simp add: keeps_def Store_def)

lemma keeps_Delete:
  "keeps A k w0 w \<Longrightarrow> f \<in> {''_POWER_RESTORE_MODE'', ''_CLEAR_ALARM_METER_DEVICE''}
   \<Longrightarrow> keeps A k w0 (Delete w (A @ f))"
  by (auto simp add: keeps_def Delete_def)

lemma keeps_clearPln:
  assumes "keeps A k w0 w"
  shows "keeps A k w0 (handleClearPowerPlnEvent L w A m e)"
  by (simp add: handleClearPowerPlnEvent_def Let_def assms keeps_Store keeps_Delete keeps_emit
      split: option.splits)

lemma keeps_pln:
  assumes "keeps A k w0 w"
  shows "keeps A k w0 (handlePowerPln L w A m e)"
  by (simp add: handlePowerPln_def Let_def assms keeps_Store keeps_emit keeps_clearPln
      split: option.splits)

lemma keeps_check:
  assumes "keeps A k w0 w"
  shows "keeps A k w0 (checkCombinedConditions L w A m e)"
  by (simp add: checkCombinedConditions_def Let_def assms keeps_pln split: option.splits)

lemma keeps_correlation:
  shows "keeps A k w (handlePowerBackupModeEvent L w A m e)"
    and "keeps A k w (handlePowerRestoreModeEvent L w A m e)"
    and "keeps A k w (handleAlarmMeterDeviceEvent L w A m e)"
    and "keeps A k w (handleClearAlarmMeterDeviceEvent L w A m e)"
  by (simp_all add: handlePowerBackupModeEvent_def handlePowerRestoreModeEvent_def
        handleAlarmMeterDeviceEvent_def handleClearAlarmMeterDeviceEvent_def Let_def
        keeps_check keeps_Store keeps_emit keeps_refl split: option.splits)

lemma state_passThrough: "eventState (handlePassThrough tag v L w A m e) = eventState w"
  by (simp add: handlePassThrough_def Let_def store_defs split: option.splits)

lemma state_temperature: "eventState (handleTemperatureEvent L w A m e) = eventState w"
  by (simp add: handleTemperatureEvent_def Let_def store_defs split: option.splits)

lemma state_geolocation: "eventState (handleGeolocationEvent L w m A e) = eventState w"
  by (simp add: handleGeolocationEvent_def Let_def store_defs split: option.splits jval.splits)

lemma state_setTemperature:
  "handleSetTemperatureEvents L w A m = Inr w' \<Longrightarrow> eventState w' = eventState w"
  by (auto simp add: handleSetTemperatureEvents_def Let_def store_defs split: option.splits jval.splits)

lemma keeps_dispatch:
  assumes "dispatch L w A m e = Inr w'"
  shows "keeps A k w w'"
proof (cases "e = ''SET_TEMPERATURE''")
  case True
  with assms have "eventState w' = eventState w"
    by (simp add: dispatch_def state_setTemperature)
  then show ?thesis by (simp add: keeps_def)
next
  case False
  have p: "keeps A k w (handlePassThrough tag v L w A m e')" for tag v e'
    by (simp add: keeps_def state_passThrough)
  have t: "keeps A k w (handleTemperatureEvent L w A m e')" for e'
    by (simp add: keeps_def state_temperature)
  have g: "keeps A k w (handleGeolocationEvent L w m A e')" for e'
    by (simp add: keeps_def state_geolocation)
  from False assms [symmetric] show ?thesis
    by (simp add: dispatch_def handler_defs keeps_correlation keeps_refl p t g split: if_splits)
qed


lemma only_one_shot_keys_deleted:
  assumes "dispatch L w A m e = Inr w'" and "eventState w k = Some True"
    and "k \<noteq> A @ ''_CLEAR_ALARM_METER_DEVICE''" and "k \<noteq> A @ ''_POWER_RESTORE_MODE''"
  shows "eventState w' k = Some True"
  using keeps_dispatch [OF assms(1), of k] assms(2-4) by (auto simp: keeps_def)

lemma own_keys_only:
  assumes "dispatch L w A m e = Inr w'"
    and "k \<notin> {A @ ''_POWER_BACKUP_MODE'', A @ ''_POWER_RESTORE_MODE'',
               A @ ''_ALARM_METER_DEVICE'', A @ ''_CLEAR_ALARM_METER_DEVICE''}"
  shows "eventState w' k = eventState w k"
  using keeps_dispatch [OF assms(1), of k] assms(2) by (auto simp: keeps_def)

lemma backup_key_never_removed:
  assumes "dispatch L w A m e = Inr w'" and "eventState w (B @ ''_POWER_BACKUP_MODE'') = Some True"
  shows "eventState w' (B @ ''_POWER_BACKUP_MODE'') = Some True"
proof -
  have "B @ ''_POWER_BACKUP_MODE'' \<noteq> A @ ''_CLEAR_ALARM_METER_DEVICE''"
  proof
    assume "B @ ''_POWER_BACKUP_MODE'' = A @ ''_CLEAR_ALARM_METER_DEVICE''"
    then have "rev (B @ ''_POWER_BACKUP_MODE'') = rev (A @ ''_CLEAR_ALARM_METER_DEVICE'')"
      by simp
    then show False by simp
  qed
  moreover have "B @ ''_POWER_BACKUP_MODE'' \<noteq> A @ ''_POWER_RESTORE_MODE''"
  proof
    assume "B @ ''_POWER_BACKUP_MODE'' = A @ ''_POWER_RESTORE_MODE''"
    then have "rev (B @ ''_POWER_BACKUP_MODE'') = rev (A @ ''_POWER_RESTORE_MODE'')"
      by simp
    then show False by simp
  qed
  ultimately show ?thesis
    using only_one_shot_keys_deleted [OF assms] by simp
qed

lemma alarm_key_removed_only_by_prefix_sender:
  assumes "dispatch L w A m e = Inr w'" and "eventState w (B @ ''_ALARM_METER_DEVICE'') = Some True"
    and "B \<noteq> A @ ''_CLEAR''"
  shows "eventState w' (B @ ''_ALARM_METER_DEVICE'') = Some True"
proof -
  have "B @ ''_ALARM_METER_DEVICE'' \<noteq> A @ ''_CLEAR_ALARM_METER_DEVICE''"
  proof
    assume "B @ ''_ALARM_METER_DEVICE'' = A @ ''_CLEAR_ALARM_METER_DEVICE''"
    then have "B @ ''_ALARM_METER_DEVICE'' = (A @ ''_CLEAR'') @ ''_ALARM_METER_DEVICE''"
      by simp
    then have "B = A @ ''_CLEAR''"
      by (simp only: append_same_eq)
    with assms(3) show False by simp
  qed
  moreover have "B @ ''_ALARM_METER_DEVICE'' \<noteq> A @ ''_POWER_RESTORE_MODE''"
  proof
    assume "B @ ''_ALARM_METER_DEVICE'' = A @ ''_POWER_RESTORE_MODE''"
    then have "rev (B @ ''_ALARM_METER_DEVICE'') = rev (A @ ''_POWER_RESTORE_MODE'')"
      by simp
    then show False by simp
  qed
  ultimately show ?thesis
    using only_one_shot_keys_deleted [OF assms(1,2)] by simp
qed

text \<open>
  C6 fails on the code. The key of a flag is the sender followed by \<open>_\<close> and the flag
  name, so the key \<open>X_CLEAR_ALARM_METER_DEVICE\<close> is at once the one-shot flag
  \<open>CLEAR_ALARM_METER_DEVICE\<close> of sender \<open>X\<close> and the conjunction flag
  \<open>ALARM_METER_DEVICE\<close> of sender \<open>X_CLEAR\<close>. In the first run sender \<open>X_CLEAR\<close>
  receives its alarm and then its backup event and \<open>POWER_PLN\<close> with value 1 is
  published for it. The second run has the same two events of \<open>X_CLEAR\<close> with three
  events of sender \<open>X\<close> between them; the last of these deletes the shared key, and no
  \<open>POWER_PLN\<close> is published for \<open>X_CLEAR\<close>.
\<close>

theorem sender_key_collision_interference:
  "plnCount 1 ''X_CLEAR'' (pointsOf (run exampleLib emptyWorld
      [ev ''X_CLEAR'' ''ALARM_METER_DEVICE'', ev ''X_CLEAR'' ''POWER_BACKUP_MODE''])) = 1
   \<and> plnCount 1 ''X_CLEAR'' (pointsOf (run exampleLib emptyWorld
        [ev ''X_CLEAR'' ''ALARM_METER_DEVICE'',
         ev ''X'' ''POWER_BACKUP_MODE'', ev ''X'' ''ALARM_METER_DEVICE'',
         ev ''X'' ''CLEAR_ALARM_METER_DEVICE'',
         ev ''X_CLEAR'' ''POWER_BACKUP_MODE''])) = 0"
  by (simp add: ex_eval)

text \<open>
  C10 fails on the code, by the same shared key. After its alarm and backup events both
  conjunction flags of sender \<open>X_CLEAR\<close> are present; the \<open>CLEAR_ALARM_METER_DEVICE\<close>
  event of sender \<open>X\<close> then deletes \<open>X_CLEAR_ALARM_METER_DEVICE\<close>, which is the
  \<open>ALARM_METER_DEVICE\<close> key of \<open>X_CLEAR\<close>.
\<close>

theorem alarm_key_removed_by_other_sender:
  "stateOf (run exampleLib emptyWorld
      [ev ''X_CLEAR'' ''ALARM_METER_DEVICE'', ev ''X_CLEAR'' ''POWER_BACKUP_MODE''])
      (''X_CLEAR'' @ ''_ALARM_METER_DEVICE'') = Some True
   \<and> stateOf (run exampleLib emptyWorld
        [ev ''X_CLEAR'' ''ALARM_METER_DEVICE'', ev ''X_CLEAR'' ''POWER_BACKUP_MODE'',
         ev ''X'' ''POWER_BACKUP_MODE'', ev ''X'' ''ALARM_METER_DEVICE'',
         ev ''X'' ''CLEAR_ALARM_METER_DEVICE''])
        (''X_CLEAR'' @ ''_ALARM_METER_DEVICE'') = None"
  by (simp add: ex_eval)

subsection \<open>Senders without a shared key\<close>

text \<open>
  What a message does depends on the four keys of its sender only, so two senders whose
  key sets are disjoint do not influence each other; the key sets of two different
  senders meet exactly when one sender is the other followed by \<open>_CLEAR\<close>.
\<close>

lemma stateless_dispatch:
  assumes "e \<notin> {''POWER_BACKUP_MODE'', ''POWER_RESTORE_MODE'', ''ALARM_METER_DEVICE'',
                 ''CLEAR_ALARM_METER_DEVICE''}"
  shows "stateless (\<lambda>w. dispatch L w sid m e)"
  unfolding stateless_def
proof
  fix w :: "'a world"
  let ?E = "\<lparr>eventState = Map.empty, rows = [], datapoints = []\<rparr> :: 'a world"
  let ?ext = "\<lambda>r. case r of Inl e \<Rightarrow> Inl e
                | Inr w0 \<Rightarrow> Inr (w\<lparr>rows := rows w @ rows w0,
                                   datapoints := datapoints w @ datapoints w0\<rparr>)"
  have p: "Inr (handlePassThrough tag v L w sid m e') =
             ?ext (Inr (handlePassThrough tag v L ?E sid m e'))" for tag v e'
    by (simp add: handlePassThrough_def store_defs Let_def split: option.splits)
  have t: "Inr (handleTemperatureEvent L w sid m e') =
             ?ext (Inr (handleTemperatureEvent L ?E sid m e'))" for e'
    by (simp add: handleTemperatureEvent_def store_defs Let_def split: option.splits)
  have g: "Inr (handleGeolocationEvent L w m sid e') =
             ?ext (Inr (handleGeolocationEvent L ?E m sid e'))" for e'
    by (simp add: handleGeolocationEvent_def store_defs Let_def
        split: option.splits jval.splits prod.splits)
  have s: "handleSetTemperatureEvents L w sid m = ?ext (handleSetTemperatureEvents L ?E sid m)"
    by (simp add: handleSetTemperatureEvents_def store_defs Let_def
        split: option.splits jval.splits)
  from assms show "dispatch L w sid m e = ?ext (dispatch L ?E sid m e)"
    unfolding dispatch_def handler_defs
    by (simp add: p t g s)
qed

lemma stateless_view:
  assumes "stateless h"
  shows "newPoints w1 (h w1) = newPoints w2 (h w2)
     \<and> (eventState w1 k = eventState w2 k \<longrightarrow> stateOf (h w1) k = stateOf (h w2) k)"
proof -
  let ?r = "h \<lparr>eventState = Map.empty, rows = [], datapoints = []\<rparr>"
  have h: "h w = (case ?r of Inl e \<Rightarrow> Inl e
         | Inr w0 \<Rightarrow> Inr (w\<lparr>rows := rows w @ rows w0,
                            datapoints := datapoints w @ datapoints w0\<rparr>))" for w
    by (rule assms [unfolded stateless_def, rule_format])
  show ?thesis
    by (cases ?r) (simp_all add: h [of w1] h [of w2] newPoints_def pointsOf_def stateOf_def)
qed

lemma correlation_view:
  assumes "decode L m = Some t"
    and "\<forall>k \<in> flagKeys sid. eventState w1 k = eventState w2 k"
    and "e \<in> {''POWER_BACKUP_MODE'', ''POWER_RESTORE_MODE'', ''ALARM_METER_DEVICE'',
               ''CLEAR_ALARM_METER_DEVICE''}"
  shows "newPoints w1 (dispatch L w1 sid m e) = newPoints w2 (dispatch L w2 sid m e)
       \<and> (\<forall>k \<in> flagKeys sid. stateOf (dispatch L w1 sid m e) k = stateOf (dispatch L w2 sid m e) k)"
  using assms(2,3)
  by (auto simp add: flagKeys_def dispatch_corr backup_step [OF assms(1)]
      alarm_step [OF assms(1)] restore_step [OF assms(1)] clear_step [OF assms(1)]
      newPoints_def pointsOf_def stateOf_def conjSet_def)


lemma newPoints_same: "newPoints w (Inr w) = []"
  by (simp add: newPoints_def pointsOf_def)

lemma dispatch_view:
  assumes "\<forall>k \<in> flagKeys sid. eventState w1 k = eventState w2 k"
  shows "newPoints w1 (dispatch L w1 sid m e) = newPoints w2 (dispatch L w2 sid m e)
       \<and> (\<forall>k \<in> flagKeys sid.
            stateOf (dispatch L w1 sid m e) k = stateOf (dispatch L w2 sid m e) k)"
proof (cases "e \<in> {''POWER_BACKUP_MODE'', ''POWER_RESTORE_MODE'', ''ALARM_METER_DEVICE'',
                     ''CLEAR_ALARM_METER_DEVICE''}")
  case True
  show ?thesis
  proof (cases "decode L m")
    case None
    from True have "e \<noteq> ''GEOLOCATION''" by auto
    with None assms show ?thesis
      by (simp add: dispatch_drops_undecodable newPoints_same stateOf_def)
  next
    case (Some t)
    from correlation_view [OF Some assms True] show ?thesis .
  qed
next
  case False
  from stateless_view [OF stateless_dispatch [OF False]] assms show ?thesis
    by blast
qed

lemma isolation_without_shared_keys:
  assumes "flagKeys A \<inter> flagKeys B = {}" and "dispatch L w A mA eA = Inr w'"
  shows "(\<forall>k \<in> flagKeys B. eventState w' k = eventState w k)
       \<and> newPoints w' (dispatch L w' B m e) = newPoints w (dispatch L w B m e)
       \<and> (\<forall>k \<in> flagKeys B.
            stateOf (dispatch L w' B m e) k = stateOf (dispatch L w B m e) k)"
proof -
  have 1: "\<forall>k \<in> flagKeys B. eventState w' k = eventState w k"
  proof
    fix k assume "k \<in> flagKeys B"
    with assms(1) have "k \<notin> flagKeys A" by auto
    then show "eventState w' k = eventState w k"
      using own_keys_only [OF assms(2), of k] by (simp add: flagKeys_def)
  qed
  with dispatch_view [OF 1] show ?thesis by blast
qed

lemma key_eq_rev: "A @ f = B @ g \<Longrightarrow> rev f @ rev A = rev g @ rev B"
  by (drule arg_cong [where f = rev]) simp

lemma shared_keys_iff:
  "flagKeys A \<inter> flagKeys B \<noteq> {} \<longleftrightarrow> A = B \<or> A = B @ ''_CLEAR'' \<or> B = A @ ''_CLEAR''"
proof
  assume "flagKeys A \<inter> flagKeys B \<noteq> {}"
  then obtain f g where fg: "A @ f = B @ g"
    and f: "f \<in> {''_POWER_BACKUP_MODE'', ''_POWER_RESTORE_MODE'', ''_ALARM_METER_DEVICE'', ''_CLEAR_ALARM_METER_DEVICE''}"
    and g: "g \<in> {''_POWER_BACKUP_MODE'', ''_POWER_RESTORE_MODE'', ''_ALARM_METER_DEVICE'', ''_CLEAR_ALARM_METER_DEVICE''}"
    by (auto simp: flagKeys_def)
  from key_eq_rev [OF fg] f g
  have "A = B \<or> A = B @ ''_CLEAR'' \<or> ''RAELC_'' @ rev A = rev B"
    by auto
  moreover have "B = A @ ''_CLEAR''" if "''RAELC_'' @ rev A = rev B"
    using arg_cong [OF that, where f = rev] by simp
  ultimately show "A = B \<or> A = B @ ''_CLEAR'' \<or> B = A @ ''_CLEAR''"
    by blast
next
  assume "A = B \<or> A = B @ ''_CLEAR'' \<or> B = A @ ''_CLEAR''"
  then show "flagKeys A \<inter> flagKeys B \<noteq> {}"
    by (auto simp: flagKeys_def)
qed


section \<open>The time of the emitted records\<close>




lemma timed_emit:
  "Time m = t \<Longrightarrow> timed t w (sendDataPoint (processAndSaveData w m) m)"
  by (simp add: timed_def store_defs)














lemma newPoints_ext: "datapoints w' = datapoints w @ ps \<Longrightarrow> newPoints w (Inr w') = ps"
  by (simp add: newPoints_def pointsOf_def)












text \<open>While the product stays within \<open>int64\<close>, the scaled time is the signed value
  times 1000; beyond that the multiplication wraps.\<close>

lemma specTime_exact:
  assumes "length timestampStr = 10"
    and "- (2 ^ 63) \<le> sint p * 1000" and "sint p * 1000 < 2 ^ 63"
  shows "sint (specTime timestampStr p) = sint p * 1000"
proof -
  have "sint (p * 1000) = signed_take_bit 63 (sint p * sint (1000 :: 64 word))"
    by (simp add: sint_word_ariths word_size)
  also have "sint (1000 :: 64 word) = 1000" by simp
  also have "signed_take_bit 63 (sint p * 1000) = sint p * 1000"
    using assms(2,3) by (simp add: signed_take_bit_int_eq_self)
  finally show ?thesis using assms(1) by (simp add: specTime_def)
qed

end
